theory Spec2Isabelle
  imports Main "HOL-Library.Multiset" "HOL-Library.Sublist"
begin

section \<open>JavaScript values used by the todo client\<close>

text \<open>
  A JavaScript string is a sequence of UTF-16 code units, numbers below 65536.
  The strings whose code units the program looks into (the text of a todo, what
  the user types into the form and the search box) are lists of code units;
  \<open>str\<close> gives the code units of a literal. Strings that are only stored, or
  compared with a literal as a whole, are HOL strings.
\<close>

type_synonym jsstring = "nat list"

definition str :: "string \<Rightarrow> jsstring" where
  "str s = map of_char s"

text \<open>
  \<^verbatim>\<open>String.prototype.toLowerCase\<close> is Unicode's default case conversion: every code
  unit goes to its lower-case form, except that a capital sigma (\<open>0x3A3\<close>) becomes
  the final sigma \<open>0x3C2\<close> instead of \<open>0x3C3\<close> where SpecialCasing's condition
  Final_Sigma holds: a cased letter, then any number of case-ignorable characters,
  stand before it, and no run of case-ignorable characters ending in a cased letter
  follows it. The tables below cover Basic Latin, the Latin-1 Supplement and the
  Greek letters from capital alpha (\<open>0x391\<close>) to small omega with tonos (\<open>0x3CE\<close>),
  and are exact there; a cased letter outside these blocks is left as it is.
\<close>

definition cased :: "nat \<Rightarrow> bool" where
  "cased u =
     ((0x41 \<le> u \<and> u \<le> 0x5A) \<or> (0x61 \<le> u \<and> u \<le> 0x7A) \<or> u = 0xAA \<or> u = 0xB5 \<or> u = 0xBA \<or>
      (0xC0 \<le> u \<and> u \<le> 0xD6) \<or> (0xD8 \<le> u \<and> u \<le> 0xF6) \<or> (0xF8 \<le> u \<and> u \<le> 0xFF) \<or>
      (0x391 \<le> u \<and> u \<le> 0x3A1) \<or> (0x3A3 \<le> u \<and> u \<le> 0x3CE))"

definition case_ignorable :: "nat \<Rightarrow> bool" where
  "case_ignorable u = (u \<in> {0x27, 0x2E, 0x3A, 0x5E, 0x60, 0xA8, 0xAD, 0xAF, 0xB4, 0xB7, 0xB8})"

definition lower_unit :: "nat \<Rightarrow> nat" where
  "lower_unit u =
     (if (0x41 \<le> u \<and> u \<le> 0x5A) \<or> (0xC0 \<le> u \<and> u \<le> 0xD6) \<or> (0xD8 \<le> u \<and> u \<le> 0xDE) \<or>
         (0x391 \<le> u \<and> u \<le> 0x3A1) \<or> (0x3A3 \<le> u \<and> u \<le> 0x3AB)
      then u + 0x20 else u)"

fun cased_follows :: "jsstring \<Rightarrow> bool" where
  "cased_follows [] = False"
| "cased_follows (d # s) = (cased d \<or> (case_ignorable d \<and> cased_follows s))"

text \<open>\<open>before\<close>: a cased letter and then only case-ignorable characters precede.\<close>

fun lower_from :: "bool \<Rightarrow> jsstring \<Rightarrow> jsstring" where
  "lower_from before [] = []"
| "lower_from before (c # s) =
     (if c = 0x3A3 \<and> before \<and> \<not> cased_follows s then 0x3C2 else lower_unit c)
       # lower_from (cased c \<or> (case_ignorable c \<and> before)) s"

definition toLowerCase :: "jsstring \<Rightarrow> jsstring" where
  "toLowerCase s = lower_from False s"

text \<open>
  \<^verbatim>\<open>String.prototype.trim\<close> removes the white space and line terminator code units
  from both ends.
\<close>

definition isWhiteSpace :: "nat \<Rightarrow> bool" where
  "isWhiteSpace u =
     (u \<in> {0x09, 0x0A, 0x0B, 0x0C, 0x0D, 0x20, 0xA0, 0x1680, 0x2028, 0x2029, 0x202F, 0x205F,
            0x3000, 0xFEFF} \<or> (0x2000 \<le> u \<and> u \<le> 0x200A))"

definition trim :: "jsstring \<Rightarrow> jsstring" where
  "trim s = rev (dropWhile isWhiteSpace (rev (dropWhile isWhiteSpace s)))"

text \<open>\<^verbatim>\<open>s.includes(q)\<close>: \<open>q\<close> occurs in \<open>s\<close> as a contiguous run of code units.\<close>

fun startsWith :: "jsstring \<Rightarrow> jsstring \<Rightarrow> bool" where
  "startsWith s [] = True"
| "startsWith [] (d # q) = False"
| "startsWith (c # s) (d # q) = (c = d \<and> startsWith s q)"

fun includes_str :: "jsstring \<Rightarrow> jsstring \<Rightarrow> bool" where
  "includes_str [] q = (q = [])"
| "includes_str (c # s) q = (startsWith (c # s) q \<or> includes_str s q)"

text \<open>
  A JavaScript number as far as the sort comparator needs it: a time difference in
  milliseconds, or \<^verbatim>\<open>NaN\<close>. Time values are integers of magnitude at most
  8.64e15, so the sign of a difference of two of them is the sign of the exact
  integer difference.
\<close>

datatype jsnum = Num int | NaN

text \<open>
  \<^verbatim>\<open>new Date(x) - new Date(y)\<close>, given the time values of the two dates
  (\<open>None\<close> for an Invalid Date, whose value is \<^verbatim>\<open>NaN\<close>).
\<close>

fun date_minus :: "int option \<Rightarrow> int option \<Rightarrow> jsnum" where
  "date_minus (Some x) (Some y) = Num (x - y)"
| "date_minus _ _ = NaN"

text \<open>
  \<^verbatim>\<open>Array.prototype.sort(comparefn)\<close>. ECMAScript's SortCompare reads a \<^verbatim>\<open>NaN\<close>
  from the comparator as \<open>+0\<close>, and the sort is stable. For a consistent comparator
  that fixes the result; it is computed here by stable insertion. With an
  inconsistent comparator (here: some record has an Invalid Date) the order is
  implementation-defined: the result below is a permutation an engine may give,
  and an engine's own merge sort may give another.
\<close>

fun SortCompare :: "jsnum \<Rightarrow> int" where
  "SortCompare NaN = 0"
| "SortCompare (Num v) = v"

fun sort_insert :: "('a \<Rightarrow> 'a \<Rightarrow> jsnum) \<Rightarrow> 'a \<Rightarrow> 'a list \<Rightarrow> 'a list" where
  "sort_insert comparefn x [] = [x]"
| "sort_insert comparefn x (y # ys) =
     (if SortCompare (comparefn x y) \<le> 0 then x # y # ys
      else y # sort_insert comparefn x ys)"

definition array_sort :: "('a \<Rightarrow> 'a \<Rightarrow> jsnum) \<Rightarrow> 'a list \<Rightarrow> 'a list" where
  "array_sort comparefn xs = foldr (sort_insert comparefn) xs []"

text \<open>\<^verbatim>\<open>Array.prototype.findIndex\<close>: the first index whose element passes, or \<open>-1\<close>.\<close>

fun findIndex :: "('a \<Rightarrow> bool) \<Rightarrow> 'a list \<Rightarrow> int" where
  "findIndex p [] = - 1"
| "findIndex p (x # xs) =
     (if p x then 0 else (let i = findIndex p xs in if i = - 1 then - 1 else i + 1))"

section \<open>The todo client (script.js)\<close>

subsection \<open>Data\<close>

text \<open>
  A Todo as the backend returns it. \<open>created_at\<close> is the date string of the JSON
  object; the client reads it only through \<^verbatim>\<open>new Date(...)\<close>.
\<close>

record todo =
  id_t :: int
  text_t :: jsstring
  priority_t :: string
  completed :: bool
  created_at :: string

datatype http_method = GET | HEAD | POST | PUT | DELETE | PATCH | OPTIONS

text \<open>The endpoints the client builds: \<^verbatim>\<open>/todos\<close>, \<^verbatim>\<open>/stats\<close>, \<^verbatim>\<open>/todos/${id}\<close>, \<^verbatim>\<open>/todos/toggle/${id}\<close>.\<close>

datatype endpoint = Todos | Stats | TodoById int | TodoToggle int

text \<open>A request body before \<^verbatim>\<open>JSON.stringify\<close>: the fields of the object.\<close>

type_synonym fields = "(string \<times> jsstring) list"

record fetch_request =
  url :: endpoint
  http_method :: http_method
  body :: "fields option"

text \<open>
  What \<^verbatim>\<open>fetch\<close> and \<^verbatim>\<open>response.json()\<close> give back: the promise rejects (transport
  error), or a response arrives with a status and a body that parses as JSON
  (\<open>Some\<close>) or does not (\<open>None\<close>).
\<close>

datatype 'a fetch_result = Rejected string | Response nat "'a option"

datatype api_error = TransportError string | HttpError nat | JsonError

text \<open>
  A toast's message: a literal, or \<^verbatim>\<open>`Error: ${error.message}`\<close> for the error thrown
  inside \<^verbatim>\<open>apiCall\<close>.
\<close>

datatype message = Lit string | ErrorMessage api_error

record stats =
  total :: int
  completed_count :: int
  pending_count :: int

text \<open>
  The controller's fields and the part of the page it writes: the form inputs, the
  loading overlay, the toasts shown, the rendered list (the todos whose markup is in
  \<^verbatim>\<open>todosList\<close>), the empty-state block and the statistics. \<open>fetches\<close> records
  every call of \<^verbatim>\<open>fetch\<close>. Console output is not modelled.
\<close>

record app =
  todos :: "todo list"
  currentFilter :: string
  searchQuery :: jsstring
  todoInput :: jsstring
  prioritySelect :: string
  loading :: bool
  toasts :: "(message \<times> string) list"
  todosList :: "todo list"
  emptyState :: bool
  statsView :: "stats option"
  fetches :: "fetch_request list"

subsection \<open>getFilteredTodos\<close>

text \<open>
  The comparator of the final sort, \<^verbatim>\<open>(a, b) => new Date(b.created_at) - new Date(a.created_at)\<close>.
  \<open>Date\<close> is the time value \<^verbatim>\<open>new Date\<close> gives a date string.
\<close>

definition byCreation :: "(string \<Rightarrow> int option) \<Rightarrow> todo \<Rightarrow> todo \<Rightarrow> jsnum" where
  "byCreation Date a b = date_minus (Date (created_at b)) (Date (created_at a))"

definition getFilteredTodos :: "(string \<Rightarrow> int option) \<Rightarrow> app \<Rightarrow> todo list" where
  "getFilteredTodos Date this =
     (let filtered = todos this;
          filtered = (if currentFilter this = ''completed'' then filter completed filtered
                      else if currentFilter this = ''pending''
                           then filter (\<lambda>todo. \<not> completed todo) filtered
                      else filtered);
          filtered = (if searchQuery this \<noteq> []
                      then filter (\<lambda>todo. includes_str (toLowerCase (text_t todo)) (searchQuery this)) filtered
                      else filtered)
      in array_sort (byCreation Date) filtered)"


subsection \<open>Page helpers\<close>

definition showLoading :: "app \<Rightarrow> app" where
  "showLoading this = this\<lparr>loading := True\<rparr>"

definition hideLoading :: "app \<Rightarrow> app" where
  "hideLoading this = this\<lparr>loading := False\<rparr>"

definition showToast :: "message \<Rightarrow> string \<Rightarrow> app \<Rightarrow> app" where
  "showToast msg type this = this\<lparr>toasts := toasts this @ [(msg, type)]\<rparr>"

definition updateStats :: "stats \<Rightarrow> app \<Rightarrow> app" where
  "updateStats st this = this\<lparr>statsView := Some st\<rparr>"

definition renderTodos :: "(string \<Rightarrow> int option) \<Rightarrow> app \<Rightarrow> app" where
  "renderTodos Date this =
     (let filteredTodos = getFilteredTodos Date this
      in if length filteredTodos = 0 then this\<lparr>todosList := [], emptyState := True\<rparr>
         else this\<lparr>emptyState := False, todosList := filteredTodos\<rparr>)"

subsection \<open>API methods\<close>

text \<open>\<^verbatim>\<open>response.ok\<close>: the status is in the range 200 to 299.\<close>

definition ok :: "nat \<Rightarrow> bool" where
  "ok status = (200 \<le> status \<and> status \<le> 299)"

text \<open>
  The body of the \<^verbatim>\<open>try\<close> in \<^verbatim>\<open>apiCall\<close> after the \<^verbatim>\<open>await\<close>: the value returned
  (\<open>Inr\<close>) or the error thrown (\<open>Inl\<close>).
\<close>

definition fetch_outcome :: "'a fetch_result \<Rightarrow> api_error + 'a" where
  "fetch_outcome res =
     (case res of
        Rejected m \<Rightarrow> Inl (TransportError m)
      | Response status data \<Rightarrow>
          if \<not> ok status then Inl (HttpError status)
          else (case data of None \<Rightarrow> Inl JsonError | Some d \<Rightarrow> Inr d))"

text \<open>
  \<^verbatim>\<open>apiCall\<close> runs in two parts: up to the \<^verbatim>\<open>await fetch(...)\<close>, and from the
  arrival of the result \<open>res\<close> on. \<open>apiCall\<close> is the two run back to back.
\<close>

definition apiCall_begin :: "app \<Rightarrow> fetch_request \<Rightarrow> app" where
  "apiCall_begin this req = (let this = showLoading this in this\<lparr>fetches := fetches this @ [req]\<rparr>)"

definition apiCall_resume :: "app \<Rightarrow> 'a fetch_result \<Rightarrow> (api_error + 'a) \<times> app" where
  "apiCall_resume this res =
     (case fetch_outcome res of
        Inr data \<Rightarrow> (Inr data, hideLoading this)
      | Inl error \<Rightarrow> (Inl error, hideLoading (showToast (ErrorMessage error) ''error'' this)))"

definition apiCall :: "app \<Rightarrow> fetch_request \<Rightarrow> 'a fetch_result \<Rightarrow> (api_error + 'a) \<times> app" where
  "apiCall this req res = apiCall_resume (apiCall_begin this req) res"

text \<open>
  \<^verbatim>\<open>loadStats\<close> is called without \<^verbatim>\<open>await\<close> by the other methods: what runs inside
  the caller is its part up to the \<^verbatim>\<open>await\<close>; the rest is an event of its own.
\<close>

definition loadStats_begin :: "app \<Rightarrow> app" where
  "loadStats_begin this = apiCall_begin this \<lparr>url = Stats, http_method = GET, body = None\<rparr>"

definition loadStats_resume :: "app \<Rightarrow> stats fetch_result \<Rightarrow> app" where
  "loadStats_resume this res =
     (case apiCall_resume this res of
        (Inr st, this) \<Rightarrow> updateStats st this
      | (Inl error, this) \<Rightarrow> this)"

definition loadTodos :: "(string \<Rightarrow> int option) \<Rightarrow> app \<Rightarrow> todo list fetch_result \<Rightarrow> app" where
  "loadTodos Date this res =
     (case apiCall this \<lparr>url = Todos, http_method = GET, body = None\<rparr> res of
        (Inr data, this) \<Rightarrow> loadStats_begin (renderTodos Date (this\<lparr>todos := data\<rparr>))
      | (Inl error, this) \<Rightarrow> this)"

definition addTodo ::
  "(string \<Rightarrow> int option) \<Rightarrow> app \<Rightarrow> jsstring \<Rightarrow> string \<Rightarrow> todo fetch_result \<Rightarrow> todo option \<times> app" where
  "addTodo Date this text priority res =
     (case apiCall this \<lparr>url = Todos, http_method = POST,
                         body = Some [(''text'', text), (''priority'', str priority)]\<rparr> res of
        (Inr newTodo, this) \<Rightarrow>
          (let this = this\<lparr>todos := todos this @ [newTodo]\<rparr>;
               this = renderTodos Date this;
               this = loadStats_begin this;
               this = showToast (Lit ''Todo added successfully!'') ''success'' this
           in (Some newTodo, this))
      | (Inl error, this) \<Rightarrow> (None, this))"

definition updateTodo ::
  "(string \<Rightarrow> int option) \<Rightarrow> app \<Rightarrow> int \<Rightarrow> fields \<Rightarrow> todo fetch_result \<Rightarrow> todo option \<times> app" where
  "updateTodo Date this tid updates res =
     (case apiCall this \<lparr>url = TodoById tid, http_method = PUT, body = Some updates\<rparr> res of
        (Inr updatedTodo, this) \<Rightarrow>
          (let index = findIndex (\<lambda>todo. id_t todo = tid) (todos this);
               this = (if index \<noteq> - 1
                       then loadStats_begin (renderTodos Date
                              (this\<lparr>todos := (todos this)[nat index := updatedTodo]\<rparr>))
                       else this);
               this = showToast (Lit ''Todo updated successfully!'') ''success'' this
           in (Some updatedTodo, this))
      | (Inl error, this) \<Rightarrow> (None, this))"

definition deleteTodo :: "(string \<Rightarrow> int option) \<Rightarrow> app \<Rightarrow> int \<Rightarrow> 'a fetch_result \<Rightarrow> app" where
  "deleteTodo Date this tid res =
     (case apiCall this \<lparr>url = TodoById tid, http_method = DELETE, body = None\<rparr> res of
        (Inr data, this) \<Rightarrow>
          (let this = this\<lparr>todos := filter (\<lambda>todo. id_t todo \<noteq> tid) (todos this)\<rparr>;
               this = renderTodos Date this;
               this = loadStats_begin this
           in showToast (Lit ''Todo deleted successfully!'') ''success'' this)
      | (Inl error, this) \<Rightarrow> this)"

definition toggleTodo :: "(string \<Rightarrow> int option) \<Rightarrow> app \<Rightarrow> int \<Rightarrow> todo fetch_result \<Rightarrow> app" where
  "toggleTodo Date this tid res =
     (case apiCall this \<lparr>url = TodoToggle tid, http_method = PATCH, body = None\<rparr> res of
        (Inr updatedTodo, this) \<Rightarrow>
          (let index = findIndex (\<lambda>todo. id_t todo = tid) (todos this);
               this = (if index \<noteq> - 1
                       then loadStats_begin (renderTodos Date
                              (this\<lparr>todos := (todos this)[nat index := updatedTodo]\<rparr>))
                       else this);
               status = (if completed updatedTodo then ''completed'' else ''reopened'')
           in showToast (Lit (''Todo '' @ status @ ''!'')) ''success'' this)
      | (Inl error, this) \<Rightarrow> this)"

subsection \<open>Event handlers\<close>

text \<open>
  \<^verbatim>\<open>handleAddTodo\<close> reads the two form inputs from the page; \<open>res\<close> is the result of
  the request that \<open>addTodo\<close> sends, if it sends one.
\<close>

definition handleAddTodo :: "(string \<Rightarrow> int option) \<Rightarrow> app \<Rightarrow> todo fetch_result \<Rightarrow> app" where
  "handleAddTodo Date this res =
     (let text = trim (todoInput this);
          priority = prioritySelect this
      in if text = [] then showToast (Lit ''Please enter a todo text'') ''error'' this
         else (let (added, this) = addTodo Date this text priority res
               in this\<lparr>todoInput := [], prioritySelect := ''medium''\<rparr>))"

text \<open>\<open>input\<close> is \<^verbatim>\<open>e.target.value\<close>, what the user has typed in the search box.\<close>

definition handleSearch :: "(string \<Rightarrow> int option) \<Rightarrow> app \<Rightarrow> jsstring \<Rightarrow> app" where
  "handleSearch Date this input = renderTodos Date (this\<lparr>searchQuery := trim (toLowerCase input)\<rparr>)"

subsection \<open>getFilteredTodos on a store of arrays\<close>

text \<open>
  JavaScript arrays are objects held by reference, and \<^verbatim>\<open>sort\<close> reorders its array
  in place. Here the arrays live in a store, \<open>arrays\<close>, indexed by reference;
  \<^verbatim>\<open>this.todos\<close> holds a reference. The spread \<^verbatim>\<open>[...this.todos]\<close> and each
  \<^verbatim>\<open>filter\<close> allocate a new array; \<^verbatim>\<open>sort\<close> overwrites the array it is called on.
\<close>

record store_app =
  this_todos :: nat
  this_currentFilter :: string
  this_searchQuery :: jsstring
  arrays :: "todo list list"

definition new_array :: "todo list \<Rightarrow> store_app \<Rightarrow> nat \<times> store_app" where
  "new_array xs s = (length (arrays s), s\<lparr>arrays := arrays s @ [xs]\<rparr>)"

definition sort_in_place :: "(todo \<Rightarrow> todo \<Rightarrow> jsnum) \<Rightarrow> nat \<Rightarrow> store_app \<Rightarrow> store_app" where
  "sort_in_place comparefn r s = s\<lparr>arrays := (arrays s)[r := array_sort comparefn (arrays s ! r)]\<rparr>"

definition getFilteredTodos_store :: "(string \<Rightarrow> int option) \<Rightarrow> store_app \<Rightarrow> nat \<times> store_app" where
  "getFilteredTodos_store Date s =
     (let (filtered, s) = new_array (arrays s ! this_todos s) s;
          (filtered, s) =
             (if this_currentFilter s = ''completed''
              then new_array (filter completed (arrays s ! filtered)) s
              else if this_currentFilter s = ''pending''
                   then new_array (filter (\<lambda>todo. \<not> completed todo) (arrays s ! filtered)) s
              else (filtered, s));
          (filtered, s) =
             (if this_searchQuery s \<noteq> []
              then new_array (filter (\<lambda>todo. includes_str (toLowerCase (text_t todo)) (this_searchQuery s))
                                (arrays s ! filtered)) s
              else (filtered, s));
          s = sort_in_place (byCreation Date) filtered s
      in (filtered, s))"

section \<open>The edge server\<close>

text \<open>
  The server is an Express application: a chain of handlers tried in the order of
  registration. \<^verbatim>\<open>express.static\<close>, \<^verbatim>\<open>createProxyMiddleware\<close> and the router are
  library code; they are modelled by what Express 4 and http-proxy-middleware 2 do:
  \<^item> \<^verbatim>\<open>express.static\<close> answers only GET and HEAD requests for which it finds
    something under the public directory, and passes every other request on;
  \<^item> \<^verbatim>\<open>app.use('/api', h)\<close> gives \<open>h\<close> every request, of any method, whose path
    is \<^verbatim>\<open>/api\<close> or continues it with a \<^verbatim>\<open>/\<close>, letter case ignored;
  \<^item> \<^verbatim>\<open>app.get('*', h)\<close> matches every path and decodes it as the route's
    parameter; a path that does not decode is an error, which goes to the
    error-handling middleware. It gives \<open>h\<close> the GET requests, and the HEAD requests
    since no HEAD route is registered; an OPTIONS request that reaches the end of
    the chain is answered with the methods of the routes matching its path, any
    other with 404;
  \<^item> the proxy calls \<^verbatim>\<open>onError\<close> when it cannot reach the target.
  Parameters: \<open>public\<close> gives what \<^verbatim>\<open>express.static\<close> finds for a request path
  (\<open>None\<close> when nothing), \<open>index_html\<close> is the entry document (\<open>None\<close> when the
  file cannot be read), \<open>decodeURIComponent\<close> is the JavaScript function of that name
  (\<open>None\<close> when it throws), \<open>backend\<close> is what the proxy gets from the target.
\<close>

record request =
  req_method :: http_method
  req_path :: string

datatype 'b upstream = Unreachable string | Answered 'b

datatype ('f, 'b) response =
  SendFile 'f | Json nat "(string \<times> string) list" | Proxied 'b | Allow "http_method list" | NotFound

definition express_static :: "(string \<Rightarrow> 'f option) \<Rightarrow> request \<Rightarrow> 'f option" where
  "express_static public req =
     (if req_method req = GET \<or> req_method req = HEAD then public (req_path req) else None)"

definition under_api :: "string \<Rightarrow> bool" where
  "under_api p =
     (toLowerCase (str (take 4 p)) = str ''/api'' \<and> (case drop 4 p of [] \<Rightarrow> True | c # rest \<Rightarrow> c = CHR ''/''))"

definition proxy :: "(request \<Rightarrow> 'b upstream) \<Rightarrow> request \<Rightarrow> ('f, 'b) response" where
  "proxy backend req =
     (case backend req of
        Answered b \<Rightarrow> Proxied b
      | Unreachable err \<Rightarrow>
          Json 500 [(''error'', ''Backend server unavailable''),
                    (''message'', ''Please make sure the Flask backend is running on port 5000'')])"

text \<open>
  The error-handling middleware registered last, and \<^verbatim>\<open>res.sendFile\<close>, which hands
  the error to it when the file cannot be read.
\<close>

definition error_handler :: "('f, 'b) response" where
  "error_handler = Json 500 [(''error'', ''Something went wrong!'')]"

definition sendFile :: "'f option \<Rightarrow> ('f, 'b) response" where
  "sendFile file = (case file of Some f \<Rightarrow> SendFile f | None \<Rightarrow> error_handler)"

definition server ::
  "(string \<Rightarrow> 'f option) \<Rightarrow> 'f option \<Rightarrow> (string \<Rightarrow> string option) \<Rightarrow>
     (request \<Rightarrow> 'b upstream) \<Rightarrow> request \<Rightarrow> ('f, 'b) response" where
  "server public index_html decodeURIComponent backend req =
     (case express_static public req of
        Some f \<Rightarrow> SendFile f
      | None \<Rightarrow>
          if under_api (req_path req) then proxy backend req
          else (case decodeURIComponent (req_path req) of
                  None \<Rightarrow> error_handler
                | Some p \<Rightarrow>
                    if req_method req = GET \<or> req_method req = HEAD then sendFile index_html
                    else if req_method req = OPTIONS then Allow [GET, HEAD]
                    else NotFound))"

section \<open>Notions of the specification\<close>

text \<open>A cache is well-formed when every record's creation date is a valid date.\<close>

definition well_formed :: "(string \<Rightarrow> int option) \<Rightarrow> todo list \<Rightarrow> bool" where
  "well_formed Date ts = (\<forall>t \<in> set ts. Date (created_at t) \<noteq> None)"

text \<open>\<open>a\<close> was created no earlier than \<open>b\<close>, and strictly later than \<open>b\<close>.\<close>

definition not_older :: "(string \<Rightarrow> int option) \<Rightarrow> todo \<Rightarrow> todo \<Rightarrow> bool" where
  "not_older Date a b =
     (case Date (created_at a) of None \<Rightarrow> False
      | Some x \<Rightarrow> (case Date (created_at b) of None \<Rightarrow> False | Some y \<Rightarrow> y \<le> x))"

definition newer :: "(string \<Rightarrow> int option) \<Rightarrow> todo \<Rightarrow> todo \<Rightarrow> bool" where
  "newer Date a b =
     (case Date (created_at a) of None \<Rightarrow> False
      | Some x \<Rightarrow> (case Date (created_at b) of None \<Rightarrow> False | Some y \<Rightarrow> y < x))"

text \<open>
  Containment with letter case ignored, for strings of Basic Latin and Latin-1
  characters (\<open>latin1\<close>): two code units are the same letter when they are equal or
  one is the capital of the other, and \<open>s\<close> contains \<open>q\<close> when some run of \<open>s\<close>
  agrees with \<open>q\<close> letter by letter.
\<close>

definition latin1 :: "jsstring \<Rightarrow> bool" where
  "latin1 s = list_all (\<lambda>u. u < 256) s"

definition capital_of :: "nat \<Rightarrow> nat \<Rightarrow> bool" where
  "capital_of u l =
     (((0x41 \<le> u \<and> u \<le> 0x5A) \<or> (0xC0 \<le> u \<and> u \<le> 0xD6) \<or> (0xD8 \<le> u \<and> u \<le> 0xDE)) \<and> l = u + 0x20)"

definition same_letter :: "nat \<Rightarrow> nat \<Rightarrow> bool" where
  "same_letter a b = (a = b \<or> capital_of a b \<or> capital_of b a)"

fun starts_ci :: "jsstring \<Rightarrow> jsstring \<Rightarrow> bool" where
  "starts_ci s [] = True"
| "starts_ci [] (d # q) = False"
| "starts_ci (c # s) (d # q) = (same_letter c d \<and> starts_ci s q)"

fun contains_ci :: "jsstring \<Rightarrow> jsstring \<Rightarrow> bool" where
  "contains_ci [] q = (q = [])"
| "contains_ci (c # s) q = (starts_ci (c # s) q \<or> contains_ci s q)"

text \<open>The API call fails: a transport error, a status outside 200 to 299, or a body that is not JSON.\<close>

definition api_failed :: "'a fetch_result \<Rightarrow> bool" where
  "api_failed res = (case fetch_outcome res of Inl error \<Rightarrow> True | Inr data \<Rightarrow> False)"

section \<open>Example inputs\<close>

text \<open>A date parser that knows two dates, a day apart, and three todos; two share a date.\<close>

definition example_Date :: "string \<Rightarrow> int option" where
  "example_Date s =
     (if s = ''2024-05-01T10:00:00.000Z'' then Some 1714557600000
      else if s = ''2024-05-02T10:00:00.000Z'' then Some 1714644000000
      else None)"

definition todo_milk :: todo where
  "todo_milk = \<lparr>id_t = 1, text_t = str ''Buy Milk'', priority_t = ''high'', completed = False,
                 created_at = ''2024-05-01T10:00:00.000Z''\<rparr>"

definition todo_dog :: todo where
  "todo_dog = \<lparr>id_t = 2, text_t = str ''Walk the dog'', priority_t = ''low'', completed = True,
                created_at = ''2024-05-02T10:00:00.000Z''\<rparr>"

definition todo_tea :: todo where
  "todo_tea = \<lparr>id_t = 3, text_t = str ''Make tea'', priority_t = ''medium'', completed = False,
                created_at = ''2024-05-01T10:00:00.000Z''\<rparr>"

definition example_app :: app where
  "example_app =
     \<lparr>todos = [todo_milk, todo_dog, todo_tea], currentFilter = ''all'', searchQuery = [],
      todoInput = [], prioritySelect = ''medium'', loading = False, toasts = [],
      todosList = [], emptyState = True, statsView = None, fetches = []\<rparr>"

text \<open>
  A cache of one todo whose text is the Greek word for world in capitals (kappa,
  omicron, sigma, mu, omicron, sigma), and its first three letters as a search input.
\<close>

definition kos :: jsstring where
  "kos = [0x39A, 0x39F, 0x3A3]"

definition todo_kosmos :: todo where
  "todo_kosmos = \<lparr>id_t = 4, text_t = [0x39A, 0x39F, 0x3A3, 0x39C, 0x39F, 0x3A3],
                   priority_t = ''low'', completed = False,
                   created_at = ''2024-05-02T10:00:00.000Z''\<rparr>"

definition greek_app :: app where
  "greek_app =
     \<lparr>todos = [todo_kosmos], currentFilter = ''all'', searchQuery = [],
      todoInput = [], prioritySelect = ''medium'', loading = False, toasts = [],
      todosList = [], emptyState = True, statsView = None, fetches = []\<rparr>"

text \<open>Two stores that hold the same cache, filter and query, at different references.\<close>

definition example_store :: store_app where
  "example_store =
     \<lparr>this_todos = 0, this_currentFilter = ''pending'', this_searchQuery = str ''m'',
      arrays = [[todo_milk, todo_dog, todo_tea]]\<rparr>"

definition example_store_b :: store_app where
  "example_store_b =
     \<lparr>this_todos = 1, this_currentFilter = ''pending'', this_searchQuery = str ''m'',
      arrays = [[todo_dog], [todo_milk, todo_dog, todo_tea]]\<rparr>"

text \<open>
  A public directory without files, a backend that refuses every connection, and
  \<^verbatim>\<open>decodeURIComponent\<close> as far as the examples need it: a path free of \<^verbatim>\<open>%\<close> is
  returned as it is; the one other path of the examples is \<^verbatim>\<open>/%\<close>, a percent
  sign that no two hexadecimal digits follow, on which the function throws.
\<close>

definition decode_plain :: "string \<Rightarrow> string option" where
  "decode_plain p = (if CHR ''%'' \<in> set p then None else Some p)"

definition empty_dir :: "string \<Rightarrow> string option" where
  "empty_dir p = None"

definition backend_down :: "request \<Rightarrow> unit upstream" where
  "backend_down req = Unreachable ''connect ECONNREFUSED 127.0.0.1:5000''"

text \<open>The definitions that evaluating the examples unfolds.\<close>

lemmas eval_defs =
  str_def trim_def isWhiteSpace_def toLowerCase_def lower_unit_def cased_def case_ignorable_def
  latin1_def same_letter_def capital_of_def under_api_def decode_plain_def empty_dir_def
  backend_down_def well_formed_def not_older_def newer_def
  example_Date_def todo_milk_def todo_dog_def todo_tea_def example_app_def
  kos_def todo_kosmos_def greek_app_def example_store_def example_store_b_def
  getFilteredTodos_def handleSearch_def renderTodos_def array_sort_def byCreation_def Let_def

section \<open>Strings\<close>

text \<open>Without a capital sigma, lower-casing works on every code unit by itself.\<close>

lemma lower_from_no_sigma: "0x3A3 \<notin> set s \<Longrightarrow> lower_from before s = map lower_unit s"
  by (induction s arbitrary: before) auto

lemma latin1_no_sigma: "latin1 s \<Longrightarrow> 0x3A3 \<notin> set s"
  by (auto simp: latin1_def list_all_iff)

lemma toLowerCase_latin1: "latin1 s \<Longrightarrow> toLowerCase s = map lower_unit s"
  by (simp add: toLowerCase_def lower_from_no_sigma latin1_no_sigma)

lemma isWhiteSpace_lower_unit: "isWhiteSpace (lower_unit u) = isWhiteSpace u"
  unfolding lower_unit_def isWhiteSpace_def by auto

lemma dropWhile_ws_lower:
  "dropWhile isWhiteSpace (map lower_unit s) = map lower_unit (dropWhile isWhiteSpace s)"
  by (induction s) (simp_all add: isWhiteSpace_lower_unit)

lemma trim_map_lower: "trim (map lower_unit s) = map lower_unit (trim s)"
  by (simp add: trim_def dropWhile_ws_lower rev_map)

lemma latin1_trim: "latin1 s \<Longrightarrow> latin1 (trim s)"
  unfolding latin1_def list_all_iff trim_def
  by (auto dest!: set_dropWhileD)

text \<open>\<open>includes_str\<close> is the substring relation.\<close>

lemma startsWith_iff: "startsWith s q \<longleftrightarrow> prefix q s"
  by (induction s q rule: startsWith.induct) auto

lemma includes_str_iff: "includes_str s q \<longleftrightarrow> sublist q s"
  by (induction s) (auto simp: startsWith_iff sublist_Cons_right)

lemma includes_str_empty: "includes_str s []"
  by (cases s) simp_all

text \<open>\<open>contains_ci\<close> finds a run that agrees with the query letter by letter.\<close>

lemma starts_ci_iff: "starts_ci s q \<longleftrightarrow> (\<exists>w. prefix w s \<and> list_all2 same_letter w q)"
proof (induction s q rule: starts_ci.induct)
  case (1 s)
  then show ?case by auto
next
  case (2 d q)
  then show ?case by (auto simp: list_all2_Cons2)
next
  case (3 c s d q)
  show ?case
  proof
    assume "starts_ci (c # s) (d # q)"
    then obtain w where "same_letter c d" "prefix w s" "list_all2 same_letter w q"
      using 3 by auto
    then have "prefix (c # w) (c # s) \<and> list_all2 same_letter (c # w) (d # q)" by simp
    then show "\<exists>w. prefix w (c # s) \<and> list_all2 same_letter w (d # q)" by blast
  next
    assume "\<exists>w. prefix w (c # s) \<and> list_all2 same_letter w (d # q)"
    then obtain w where w: "prefix w (c # s)" "list_all2 same_letter w (d # q)" by blast
    then obtain w' where "w = c # w'" "prefix w' s" "same_letter c d" "list_all2 same_letter w' q"
      by (cases w) (auto simp: list_all2_Cons2)
    then show "starts_ci (c # s) (d # q)" using 3 by auto
  qed
qed

lemma contains_ci_iff: "contains_ci s q \<longleftrightarrow> (\<exists>w. sublist w s \<and> list_all2 same_letter w q)"
proof (induction s)
  case Nil
  then show ?case by auto
next
  case (Cons c s)
  then show ?case
    by (auto simp: starts_ci_iff sublist_Cons_right)
qed

text \<open>On Latin-1 strings, comparing lower-cased forms is comparing up to letter case.\<close>

lemma same_letter_iff:
  "a < 256 \<Longrightarrow> b < 256 \<Longrightarrow> lower_unit a = lower_unit b \<longleftrightarrow> same_letter a b"
  unfolding lower_unit_def same_letter_def capital_of_def by auto

lemma startsWith_lower:
  "latin1 s \<Longrightarrow> latin1 q \<Longrightarrow>
     startsWith (map lower_unit s) (map lower_unit q) = starts_ci s q"
  by (induction s q rule: starts_ci.induct) (simp_all add: latin1_def same_letter_iff)

lemma includes_str_lower:
  "latin1 s \<Longrightarrow> latin1 q \<Longrightarrow>
     includes_str (map lower_unit s) (map lower_unit q) = contains_ci s q"
proof (induction s)
  case Nil
  then show ?case by simp
next
  case (Cons c s)
  then have "latin1 s" by (simp add: latin1_def)
  with Cons show ?case
    using startsWith_lower [of "c # s" q] by simp
qed

text \<open>\<open>trim\<close> leaves nothing exactly when every code unit is white space.\<close>

lemma trim_empty_iff: "trim s = [] \<longleftrightarrow> (\<forall>c \<in> set s. isWhiteSpace c)"
proof -
  have "(\<forall>x \<in> set (dropWhile isWhiteSpace s). isWhiteSpace x) \<longleftrightarrow> dropWhile isWhiteSpace s = []"
    using hd_dropWhile [of isWhiteSpace s]
    by (cases "dropWhile isWhiteSpace s") (auto dest: set_dropWhileD)
  then show ?thesis
    by (simp add: trim_def dropWhile_eq_Nil_conv)
qed

section \<open>Arrays\<close>

lemma findIndex_ge: "- 1 \<le> findIndex p xs"
  by (induction xs) (simp_all add: Let_def)

lemma findIndex_absent: "findIndex p xs = - 1 \<longleftrightarrow> (\<forall>x \<in> set xs. \<not> p x)"
proof (induction xs)
  case Nil
  then show ?case by simp
next
  case (Cons x xs)
  then show ?case
    using findIndex_ge [of p xs] by (auto simp: Let_def)
qed

lemma mset_sort_insert: "mset (sort_insert c x ys) = add_mset x (mset ys)"
  by (induction ys) simp_all

lemma mset_array_sort: "mset (array_sort c xs) = mset xs"
  unfolding array_sort_def by (induction xs) (simp_all add: mset_sort_insert)

lemma set_array_sort: "set (array_sort c xs) = set xs"
  using mset_array_sort [of c xs] by (metis set_mset_mset)

lemma array_sort_Cons: "array_sort c (x # xs) = sort_insert c x (array_sort c xs)"
  by (simp add: array_sort_def)

lemma array_sort_Nil: "array_sort c [] = []"
  by (simp add: array_sort_def)

text \<open>On valid dates the comparator orders by time value, newest first.\<close>

lemma not_older_trans: "not_older Date a b \<Longrightarrow> not_older Date b c \<Longrightarrow> not_older Date a c"
  by (auto simp: not_older_def split: option.splits)

lemma sorted_sort_insert:
  assumes "sorted_wrt (not_older Date) ys" and "Date (created_at x) \<noteq> None"
    and "\<forall>y \<in> set ys. Date (created_at y) \<noteq> None"
  shows "sorted_wrt (not_older Date) (sort_insert (byCreation Date) x ys)"
  using assms
proof (induction ys)
  case Nil
  then show ?case by simp
next
  case (Cons y ys)
  obtain tx ty where tx: "Date (created_at x) = Some tx" and ty: "Date (created_at y) = Some ty"
    using Cons.prems by auto
  show ?case
  proof (cases "SortCompare (byCreation Date x y) \<le> 0")
    case True
    then have xy: "not_older Date x y"
      using tx ty by (simp add: byCreation_def not_older_def)
    have "\<forall>z \<in> set ys. not_older Date x z"
      using Cons.prems(1) xy not_older_trans by auto
    with True xy Cons.prems(1) show ?thesis by simp
  next
    case False
    then have yx: "not_older Date y x"
      using tx ty by (simp add: byCreation_def not_older_def)
    have "set (sort_insert (byCreation Date) x ys) = insert x (set ys)"
      using mset_sort_insert [of "byCreation Date" x ys]
      by (metis set_mset_add_mset_insert set_mset_mset)
    with False yx Cons show ?thesis by simp
  qed
qed

lemma sorted_array_sort:
  "well_formed Date xs \<Longrightarrow> sorted_wrt (not_older Date) (array_sort (byCreation Date) xs)"
proof (induction xs)
  case Nil
  then show ?case by (simp add: array_sort_Nil)
next
  case (Cons x xs)
  then show ?case
    by (simp add: array_sort_Cons well_formed_def sorted_sort_insert set_array_sort)
qed

text \<open>The sort is stable: records of one time value keep their order.\<close>

lemma filter_sort_insert:
  "filter (\<lambda>t. Date (created_at t) = Some v) (sort_insert (byCreation Date) x ys) =
     filter (\<lambda>t. Date (created_at t) = Some v) (x # ys)"
proof (induction ys)
  case Nil
  then show ?case by simp
next
  case (Cons y ys)
  show ?case
  proof (cases "SortCompare (byCreation Date x y) \<le> 0")
    case True
    then show ?thesis by simp
  next
    case False
    then have "\<not> (Date (created_at x) = Some v \<and> Date (created_at y) = Some v)"
      by (auto simp: byCreation_def)
    with False Cons show ?thesis by auto
  qed
qed

lemma stable_array_sort:
  "filter (\<lambda>t. Date (created_at t) = Some v) (array_sort (byCreation Date) xs) =
     filter (\<lambda>t. Date (created_at t) = Some v) xs"
  by (induction xs) (simp_all add: array_sort_Nil array_sort_Cons filter_sort_insert)

section \<open>The filtered view\<close>

text \<open>
  C1 (as amended). For every cache whose records all carry a valid creation date,
  \<open>getFilteredTodos\<close> with filter \<open>all\<close> and an empty search query returns the
  whole cache, no record added, dropped or duplicated, ordered newest first: each
  record is no older than every record after it, and records of one and the same
  creation time keep the order they have in the cache.
\<close>

theorem getFilteredTodos_all_newest_first:
  assumes "well_formed Date (todos this)" and "currentFilter this = ''all''"
    and "searchQuery this = []"
  shows "mset (getFilteredTodos Date this) = mset (todos this) \<and>
         sorted_wrt (not_older Date) (getFilteredTodos Date this) \<and>
         (\<forall>v. filter (\<lambda>t. Date (created_at t) = Some v) (getFilteredTodos Date this) =
              filter (\<lambda>t. Date (created_at t) = Some v) (todos this))"
proof -
  have "getFilteredTodos Date this = array_sort (byCreation Date) (todos this)"
    using assms(2,3) by (simp add: getFilteredTodos_def)
  then show ?thesis
    using assms(1) by (simp add: mset_array_sort sorted_array_sort stable_array_sort)
qed

text \<open>The theorem at the example cache of three todos.\<close>

theorem getFilteredTodos_all_newest_first_witness:
  "well_formed example_Date (todos example_app) \<and> currentFilter example_app = ''all'' \<and>
   searchQuery example_app = [] \<and>
   mset (getFilteredTodos example_Date example_app) = mset (todos example_app) \<and>
   sorted_wrt (not_older example_Date) (getFilteredTodos example_Date example_app) \<and>
   (\<forall>v. filter (\<lambda>t. example_Date (created_at t) = Some v) (getFilteredTodos example_Date example_app) =
        filter (\<lambda>t. example_Date (created_at t) = Some v) (todos example_app))"
proof -
  have h1: "well_formed example_Date (todos example_app)" by (simp add: eval_defs)
  have h2: "currentFilter example_app = ''all''" by (simp add: eval_defs)
  have h3: "searchQuery example_app = []" by (simp add: eval_defs)
  from getFilteredTodos_all_newest_first [OF h1 h2 h3] h1 h2 h3 show ?thesis by blast
qed

text \<open>
  C1 as stated asks for a strictly descending order. Two records created in the same
  millisecond are well-formed, and the result then holds two neighbours neither of
  which is newer than the other.
\<close>

theorem getFilteredTodos_all_not_strictly_descending:
  "well_formed example_Date (todos example_app) \<and> currentFilter example_app = ''all'' \<and>
   searchQuery example_app = [] \<and>
   \<not> sorted_wrt (newer example_Date) (getFilteredTodos example_Date example_app)"
  by (simp add: eval_defs)

text \<open>
  C2. With an empty search query, filter \<open>completed\<close> returns exactly the records of
  the cache whose \<open>completed\<close> field is true, filter \<open>pending\<close> exactly those whose
  field is false, and the two results together are the cache.
\<close>

theorem getFilteredTodos_completed_pending:
  "mset (getFilteredTodos Date (this\<lparr>currentFilter := ''completed'', searchQuery := []\<rparr>)) =
     filter_mset completed (mset (todos this)) \<and>
   mset (getFilteredTodos Date (this\<lparr>currentFilter := ''pending'', searchQuery := []\<rparr>)) =
     filter_mset (\<lambda>todo. \<not> completed todo) (mset (todos this)) \<and>
   mset (getFilteredTodos Date (this\<lparr>currentFilter := ''completed'', searchQuery := []\<rparr>)) +
   mset (getFilteredTodos Date (this\<lparr>currentFilter := ''pending'', searchQuery := []\<rparr>)) =
     mset (todos this)"
  by (simp add: getFilteredTodos_def mset_array_sort)

text \<open>
  C3 (as amended). After \<open>handleSearch\<close> has stored the user's input, lower-cased
  and trimmed, as the search query, \<open>getFilteredTodos\<close> with filter \<open>all\<close> returns
  exactly the records of the cache whose lower-cased text contains the stored query
  as a run of code units. When the input and the texts of the cache are made of
  Basic Latin and Latin-1 characters, these are exactly the records whose text
  contains the trimmed input with letter case ignored.
\<close>

theorem getFilteredTodos_search:
  assumes "currentFilter this = ''all''"
  shows "searchQuery (handleSearch Date this input) = trim (toLowerCase input) \<and>
         mset (getFilteredTodos Date (handleSearch Date this input)) =
           filter_mset (\<lambda>todo. sublist (trim (toLowerCase input)) (toLowerCase (text_t todo)))
             (mset (todos this)) \<and>
         (latin1 input \<and> list_all (\<lambda>todo. latin1 (text_t todo)) (todos this) \<longrightarrow>
            mset (getFilteredTodos Date (handleSearch Date this input)) =
              filter_mset (\<lambda>todo. contains_ci (text_t todo) (trim input)) (mset (todos this)))"
proof -
  let ?q = "trim (toLowerCase input)"
  let ?st = "handleSearch Date this input"
  have q: "searchQuery ?st = ?q"
    by (simp add: handleSearch_def renderTodos_def Let_def)
  have t: "todos ?st = todos this"
    by (simp add: handleSearch_def renderTodos_def Let_def)
  have f: "currentFilter ?st = ''all''"
    using assms by (simp add: handleSearch_def renderTodos_def Let_def)
  have r: "mset (getFilteredTodos Date ?st) =
             mset (filter (\<lambda>todo. includes_str (toLowerCase (text_t todo)) ?q) (todos this))"
  proof (cases "?q = []")
    case True
    then show ?thesis
      using q t f by (simp add: getFilteredTodos_def mset_array_sort includes_str_empty)
  next
    case False
    then show ?thesis
      using q t f by (simp add: getFilteredTodos_def mset_array_sort)
  qed
  have sub: "mset (getFilteredTodos Date ?st) =
               filter_mset (\<lambda>todo. sublist ?q (toLowerCase (text_t todo))) (mset (todos this))"
    using r by (simp add: includes_str_iff)
  have ci: "mset (getFilteredTodos Date ?st) =
              filter_mset (\<lambda>todo. contains_ci (text_t todo) (trim input)) (mset (todos this))"
    if l: "latin1 input" and ls: "list_all (\<lambda>todo. latin1 (text_t todo)) (todos this)"
  proof -
    have q': "?q = map lower_unit (trim input)"
      using l by (simp add: toLowerCase_latin1 trim_map_lower)
    have "includes_str (toLowerCase (text_t todo)) ?q = contains_ci (text_t todo) (trim input)"
      if "todo \<in> set (todos this)" for todo
    proof -
      have lt: "latin1 (text_t todo)"
        using ls that by (simp add: list_all_iff)
      have "includes_str (toLowerCase (text_t todo)) ?q =
              includes_str (map lower_unit (text_t todo)) (map lower_unit (trim input))"
        using lt by (simp only: q' toLowerCase_latin1)
      also have "\<dots> = contains_ci (text_t todo) (trim input)"
        using lt l by (intro includes_str_lower latin1_trim)
      finally show ?thesis .
    qed
    then have "filter (\<lambda>todo. includes_str (toLowerCase (text_t todo)) ?q) (todos this) =
                 filter (\<lambda>todo. contains_ci (text_t todo) (trim input)) (todos this)"
      by (intro filter_cong) simp_all
    with r show ?thesis by simp
  qed
  from q sub ci show ?thesis by blast
qed

text \<open>
  The theorem at the example cache, the user typing \<open>MILK\<close> between blanks: the one
  record returned is the todo \<open>Buy Milk\<close>.
\<close>

theorem getFilteredTodos_search_witness:
  "currentFilter example_app = ''all'' \<and> latin1 (str ''  MILK '') \<and>
   list_all (\<lambda>todo. latin1 (text_t todo)) (todos example_app) \<and>
   searchQuery (handleSearch example_Date example_app (str ''  MILK '')) = str ''milk'' \<and>
   mset (getFilteredTodos example_Date (handleSearch example_Date example_app (str ''  MILK ''))) =
     filter_mset (\<lambda>todo. contains_ci (text_t todo) (trim (str ''  MILK ''))) (mset (todos example_app)) \<and>
   getFilteredTodos example_Date (handleSearch example_Date example_app (str ''  MILK '')) = [todo_milk] \<and>
   contains_ci (text_t todo_milk) (trim (str ''  MILK '')) \<and>
   \<not> contains_ci (text_t todo_dog) (trim (str ''  MILK '')) \<and>
   \<not> contains_ci (text_t todo_tea) (trim (str ''  MILK ''))"
proof -
  have h1: "currentFilter example_app = ''all''" by (simp add: eval_defs)
  have h2: "latin1 (str ''  MILK '')" by (simp add: eval_defs)
  have h3: "list_all (\<lambda>todo. latin1 (text_t todo)) (todos example_app)" by (simp add: eval_defs)
  have q: "trim (toLowerCase (str ''  MILK '')) = str ''milk''" by (simp add: eval_defs)
  have v: "getFilteredTodos example_Date (handleSearch example_Date example_app (str ''  MILK '')) =
             [todo_milk]" by (simp add: eval_defs)
  have c1: "contains_ci (text_t todo_milk) (trim (str ''  MILK ''))" by (simp add: eval_defs)
  have c2: "\<not> contains_ci (text_t todo_dog) (trim (str ''  MILK ''))" by (simp add: eval_defs)
  have c3: "\<not> contains_ci (text_t todo_tea) (trim (str ''  MILK ''))" by (simp add: eval_defs)
  note th = getFilteredTodos_search [OF h1, of example_Date "str ''  MILK ''"]
  from th have "searchQuery (handleSearch example_Date example_app (str ''  MILK '')) =
                  trim (toLowerCase (str ''  MILK ''))" by blast
  then have s: "searchQuery (handleSearch example_Date example_app (str ''  MILK '')) = str ''milk''"
    using q by (rule trans)
  from th h2 h3 have m:
    "mset (getFilteredTodos example_Date (handleSearch example_Date example_app (str ''  MILK ''))) =
       filter_mset (\<lambda>todo. contains_ci (text_t todo) (trim (str ''  MILK ''))) (mset (todos example_app))"
    by blast
  show ?thesis
    by (intro conjI) (rule h1 h2 h3 s m v c1 c2 c3)+
qed

text \<open>
  C3 as stated fails beyond Latin-1. The text of the one record of the Greek cache
  begins with the search input, letter for letter and in the same case. Lower-casing
  turns the sigma that ends the input into a final sigma, and the same sigma inside
  the text into a medial one, so the stored query no longer occurs in the lower-cased
  text and the record is not returned.
\<close>

theorem getFilteredTodos_search_final_sigma:
  "currentFilter greek_app = ''all'' \<and> todos greek_app = [todo_kosmos] \<and>
   text_t todo_kosmos = kos @ [0x39C, 0x39F, 0x3A3] \<and>
   toLowerCase (text_t todo_kosmos) = [0x3BA, 0x3BF, 0x3C3, 0x3BC, 0x3BF, 0x3C2] \<and>
   searchQuery (handleSearch example_Date greek_app kos) = [0x3BA, 0x3BF, 0x3C2] \<and>
   getFilteredTodos example_Date (handleSearch example_Date greek_app kos) = []"
  by (simp add: eval_defs)

text \<open>
  C10. For every value of the active filter other than \<open>completed\<close> and \<open>pending\<close>,
  \<open>getFilteredTodos\<close> applies no status filter: its result is the one for filter
  \<open>all\<close> on the same cache and search query, the sorted cache cut down by the
  search query alone.
\<close>

theorem getFilteredTodos_other_filter:
  assumes "currentFilter this \<noteq> ''completed''" and "currentFilter this \<noteq> ''pending''"
  shows "getFilteredTodos Date this = getFilteredTodos Date (this\<lparr>currentFilter := ''all''\<rparr>) \<and>
         getFilteredTodos Date this =
           array_sort (byCreation Date)
             (if searchQuery this \<noteq> []
              then filter (\<lambda>todo. includes_str (toLowerCase (text_t todo)) (searchQuery this)) (todos this)
              else todos this)"
  using assms by (simp add: getFilteredTodos_def)

text \<open>The theorem at the example cache with the filter \<open>urgent\<close>.\<close>

theorem getFilteredTodos_other_filter_witness:
  "currentFilter (example_app\<lparr>currentFilter := ''urgent''\<rparr>) \<noteq> ''completed'' \<and>
   currentFilter (example_app\<lparr>currentFilter := ''urgent''\<rparr>) \<noteq> ''pending'' \<and>
   getFilteredTodos example_Date (example_app\<lparr>currentFilter := ''urgent''\<rparr>) =
     getFilteredTodos example_Date (example_app\<lparr>currentFilter := ''urgent'', currentFilter := ''all''\<rparr>)"
proof -
  have h1: "currentFilter (example_app\<lparr>currentFilter := ''urgent''\<rparr>) \<noteq> ''completed''" by simp
  have h2: "currentFilter (example_app\<lparr>currentFilter := ''urgent''\<rparr>) \<noteq> ''pending''" by simp
  from getFilteredTodos_other_filter [OF h1 h2, of example_Date] h1 h2 show ?thesis by blast
qed

section \<open>Adding, updating, deleting and toggling\<close>

text \<open>
  C4. When the text typed into the form is empty or consists of white space only,
  \<open>handleAddTodo\<close> does nothing but show one toast: no call of \<^verbatim>\<open>fetch\<close> is made,
  the cache is as before, and so is every other field, whatever the backend would
  have answered.
\<close>

theorem handleAddTodo_blank:
  assumes "list_all isWhiteSpace (todoInput this)"
  shows "handleAddTodo Date this res =
           this\<lparr>toasts := toasts this @ [(Lit ''Please enter a todo text'', ''error'')]\<rparr> \<and>
         fetches (handleAddTodo Date this res) = fetches this \<and>
         todos (handleAddTodo Date this res) = todos this"
proof -
  have "trim (todoInput this) = []"
    using assms by (simp add: trim_empty_iff list_all_iff)
  then show ?thesis
    by (simp add: handleAddTodo_def showToast_def Let_def)
qed

text \<open>The theorem at an input of three blanks.\<close>

theorem handleAddTodo_blank_witness:
  "list_all isWhiteSpace (todoInput (example_app\<lparr>todoInput := str ''   ''\<rparr>)) \<and>
   handleAddTodo example_Date (example_app\<lparr>todoInput := str ''   ''\<rparr>) (Response 201 (Some todo_tea)) =
     (example_app\<lparr>todoInput := str ''   ''\<rparr>)
       \<lparr>toasts := toasts (example_app\<lparr>todoInput := str ''   ''\<rparr>) @
                   [(Lit ''Please enter a todo text'', ''error'')]\<rparr>"
proof -
  have h: "list_all isWhiteSpace (todoInput (example_app\<lparr>todoInput := str ''   ''\<rparr>))"
    by (simp add: eval_defs)
  from handleAddTodo_blank [OF h, of example_Date "Response 201 (Some todo_tea)"] h
  show ?thesis by blast
qed

text \<open>A failed call is one that \<open>apiCall\<close> ends by throwing.\<close>

lemma api_failed_iff:
  "api_failed res \<longleftrightarrow>
     (case res of Rejected m \<Rightarrow> True | Response status data \<Rightarrow> \<not> ok status \<or> data = None)"
  by (simp add: api_failed_def fetch_outcome_def split: fetch_result.splits option.splits)

lemma apiCall_failed:
  assumes "api_failed res"
  obtains error this' where "apiCall this req res = (Inl error, this')"
  using assms
  by (auto simp: api_failed_def apiCall_def apiCall_resume_def split: sum.splits)

lemma todos_apiCall_begin: "todos (apiCall_begin this req) = todos this"
  by (simp add: apiCall_begin_def showLoading_def Let_def)

lemma todos_apiCall: "todos (snd (apiCall this req res)) = todos this"
  by (simp add: apiCall_def apiCall_resume_def apiCall_begin_def hideLoading_def showToast_def
      showLoading_def Let_def split: sum.splits)

text \<open>After a failed call each method returns at once, in the state \<open>apiCall\<close> left.\<close>

lemma addTodo_failed:
  assumes "api_failed res"
  shows "addTodo Date this text priority res =
           (None, snd (apiCall this \<lparr>url = Todos, http_method = POST,
                         body = Some [(''text'', text), (''priority'', str priority)]\<rparr> res))"
proof -
  obtain error this' where
    "apiCall this \<lparr>url = Todos, http_method = POST,
        body = Some [(''text'', text), (''priority'', str priority)]\<rparr> res = (Inl error, this')"
    using apiCall_failed [OF assms] by blast
  then show ?thesis by (simp add: addTodo_def)
qed

lemma updateTodo_failed:
  assumes "api_failed res"
  shows "updateTodo Date this tid updates res =
           (None, snd (apiCall this \<lparr>url = TodoById tid, http_method = PUT, body = Some updates\<rparr> res))"
proof -
  obtain error this' where
    "apiCall this \<lparr>url = TodoById tid, http_method = PUT, body = Some updates\<rparr> res = (Inl error, this')"
    using apiCall_failed [OF assms] by blast
  then show ?thesis by (simp add: updateTodo_def)
qed

lemma deleteTodo_failed:
  assumes "api_failed res"
  shows "deleteTodo Date this tid res =
           snd (apiCall this \<lparr>url = TodoById tid, http_method = DELETE, body = None\<rparr> res)"
proof -
  obtain error this' where
    "apiCall this \<lparr>url = TodoById tid, http_method = DELETE, body = None\<rparr> res = (Inl error, this')"
    using apiCall_failed [OF assms] by blast
  then show ?thesis by (simp add: deleteTodo_def)
qed

lemma toggleTodo_failed:
  assumes "api_failed res"
  shows "toggleTodo Date this tid res =
           snd (apiCall this \<lparr>url = TodoToggle tid, http_method = PATCH, body = None\<rparr> res)"
proof -
  obtain error this' where
    "apiCall this \<lparr>url = TodoToggle tid, http_method = PATCH, body = None\<rparr> res = (Inl error, this')"
    using apiCall_failed [OF assms] by blast
  then show ?thesis by (simp add: toggleTodo_def)
qed

text \<open>
  C5. When the API call fails (the transport fails, the status is not 2xx, or the
  body is not JSON), each of \<open>addTodo\<close>, \<open>updateTodo\<close>, \<open>deleteTodo\<close> and
  \<open>toggleTodo\<close> is abandoned and leaves the cache exactly as it was before the call;
  \<open>addTodo\<close> and \<open>updateTodo\<close> return nothing. The cache is not touched while the
  request is under way either, so it changes only after a successful round trip.
\<close>

theorem mutations_atomic_on_error:
  assumes "api_failed res" and "api_failed dres"
  shows "todos (snd (addTodo Date this text priority res)) = todos this \<and>
         todos (snd (updateTodo Date this tid updates res)) = todos this \<and>
         todos (deleteTodo Date this tid dres) = todos this \<and>
         todos (toggleTodo Date this tid res) = todos this \<and>
         fst (addTodo Date this text priority res) = None \<and>
         fst (updateTodo Date this tid updates res) = None \<and>
         todos (apiCall_begin this req) = todos this"
  using assms
  by (simp add: addTodo_failed updateTodo_failed deleteTodo_failed toggleTodo_failed
      todos_apiCall todos_apiCall_begin)

text \<open>The theorem at a 503 response and at a rejected \<^verbatim>\<open>fetch\<close>.\<close>

theorem mutations_atomic_on_error_witness:
  "api_failed (Response 503 (None :: todo option)) \<and>
   api_failed (Rejected ''Failed to fetch'' :: unit fetch_result) \<and>
   todos (snd (addTodo example_Date example_app (str ''Call mum'') ''low'' (Response 503 None))) =
     todos example_app \<and>
   todos (snd (updateTodo example_Date example_app 2 [(''text'', str ''Walk'')] (Response 503 None))) =
     todos example_app \<and>
   todos (deleteTodo example_Date example_app 2 (Rejected ''Failed to fetch'' :: unit fetch_result)) =
     todos example_app \<and>
   todos (toggleTodo example_Date example_app 2 (Response 503 None)) = todos example_app"
proof -
  have h1: "api_failed (Response 503 (None :: todo option))"
    by (simp add: api_failed_def fetch_outcome_def ok_def)
  have h2: "api_failed (Rejected ''Failed to fetch'' :: unit fetch_result)"
    by (simp add: api_failed_def fetch_outcome_def)
  from mutations_atomic_on_error [OF h1 h2, of example_Date example_app] h1 h2
  show ?thesis by blast
qed

text \<open>
  C9. When no record of the cache has the given id, \<open>updateTodo\<close> and \<open>toggleTodo\<close>
  leave the cache unchanged whatever the server answers: on success the record
  returned is not inserted.
\<close>

theorem update_toggle_unknown_id:
  assumes "tid \<notin> id_t ` set (todos this)"
  shows "todos (snd (updateTodo Date this tid updates res)) = todos this \<and>
         todos (toggleTodo Date this tid res) = todos this"
proof -
  have "findIndex (\<lambda>todo. id_t todo = tid) (todos this) = - 1"
    using assms by (auto simp: findIndex_absent)
  then show ?thesis
    by (simp add: updateTodo_def toggleTodo_def apiCall_def apiCall_resume_def apiCall_begin_def
        showLoading_def hideLoading_def showToast_def Let_def split: sum.splits)
qed

text \<open>The theorem at the id 7, which the example cache does not hold, and a 200 response.\<close>

theorem update_toggle_unknown_id_witness:
  "7 \<notin> id_t ` set (todos example_app) \<and>
   todos (snd (updateTodo example_Date example_app 7 [(''text'', str ''Tea'')]
                 (Response 200 (Some (todo_tea\<lparr>id_t := 7\<rparr>))))) = todos example_app \<and>
   todos (toggleTodo example_Date example_app 7 (Response 200 (Some (todo_tea\<lparr>id_t := 7\<rparr>)))) =
     todos example_app"
proof -
  have h: "7 \<notin> id_t ` set (todos example_app)" by (simp add: eval_defs)
  from update_toggle_unknown_id [OF h, of example_Date] h show ?thesis by blast
qed

section \<open>getFilteredTodos has no side effect\<close>

text \<open>The array returned holds what the function on values computes.\<close>

lemma getFilteredTodos_store_result:
  assumes "this_todos s < length (arrays s)"
    and "todos this = arrays s ! this_todos s"
    and "currentFilter this = this_currentFilter s"
    and "searchQuery this = this_searchQuery s"
  shows "arrays (snd (getFilteredTodos_store Date s)) ! fst (getFilteredTodos_store Date s) =
           getFilteredTodos Date this"
  using assms
  by (simp add: getFilteredTodos_store_def getFilteredTodos_def new_array_def sort_in_place_def
      Let_def nth_append)

lemma getFilteredTodos_store_frame:
  "take (length (arrays s)) (arrays (snd (getFilteredTodos_store Date s))) = arrays s \<and>
   length (arrays s) \<le> fst (getFilteredTodos_store Date s) \<and>
   this_todos (snd (getFilteredTodos_store Date s)) = this_todos s \<and>
   this_currentFilter (snd (getFilteredTodos_store Date s)) = this_currentFilter s \<and>
   this_searchQuery (snd (getFilteredTodos_store Date s)) = this_searchQuery s"
  by (simp add: getFilteredTodos_store_def new_array_def sort_in_place_def Let_def)

text \<open>
  C8. \<open>getFilteredTodos\<close> is deterministic and free of side effects. Run in two
  stores that hold the same cache, filter and search query, it returns the same
  list. It returns a new array, not the cache; the cache and every other array
  that existed before the call hold what they held, and \<^verbatim>\<open>this.todos\<close>,
  \<^verbatim>\<open>this.currentFilter\<close> and \<^verbatim>\<open>this.searchQuery\<close> are unchanged.
\<close>

theorem getFilteredTodos_pure:
  assumes "this_todos s < length (arrays s)" and "this_todos s' < length (arrays s')"
    and "arrays s' ! this_todos s' = arrays s ! this_todos s"
    and "this_currentFilter s' = this_currentFilter s"
    and "this_searchQuery s' = this_searchQuery s"
  shows "arrays (snd (getFilteredTodos_store Date s')) ! fst (getFilteredTodos_store Date s') =
           arrays (snd (getFilteredTodos_store Date s)) ! fst (getFilteredTodos_store Date s) \<and>
         arrays (snd (getFilteredTodos_store Date s)) ! this_todos s = arrays s ! this_todos s \<and>
         take (length (arrays s)) (arrays (snd (getFilteredTodos_store Date s))) = arrays s \<and>
         fst (getFilteredTodos_store Date s) \<noteq> this_todos s \<and>
         this_todos (snd (getFilteredTodos_store Date s)) = this_todos s \<and>
         this_currentFilter (snd (getFilteredTodos_store Date s)) = this_currentFilter s \<and>
         this_searchQuery (snd (getFilteredTodos_store Date s)) = this_searchQuery s"
proof -
  define this :: app where
    "this = \<lparr>todos = arrays s ! this_todos s, currentFilter = this_currentFilter s,
             searchQuery = this_searchQuery s, todoInput = [], prioritySelect = [],
             loading = False, toasts = [], todosList = [], emptyState = False,
             statsView = None, fetches = []\<rparr>"
  have r: "arrays (snd (getFilteredTodos_store Date s)) ! fst (getFilteredTodos_store Date s) =
             getFilteredTodos Date this"
    using assms(1) by (intro getFilteredTodos_store_result) (simp_all add: this_def)
  have r': "arrays (snd (getFilteredTodos_store Date s')) ! fst (getFilteredTodos_store Date s') =
             getFilteredTodos Date this"
    using assms(2-5) by (intro getFilteredTodos_store_result) (simp_all add: this_def)
  note f = getFilteredTodos_store_frame [of s Date]
  have "take (length (arrays s)) (arrays (snd (getFilteredTodos_store Date s))) ! this_todos s =
          arrays (snd (getFilteredTodos_store Date s)) ! this_todos s"
    using assms(1) by (intro nth_take)
  with f have "arrays (snd (getFilteredTodos_store Date s)) ! this_todos s = arrays s ! this_todos s"
    by simp
  moreover have "fst (getFilteredTodos_store Date s) \<noteq> this_todos s"
    using f assms(1) by linarith
  ultimately show ?thesis
    using r r' f by simp
qed

text \<open>The theorem at the two example stores.\<close>

theorem getFilteredTodos_pure_witness:
  "this_todos example_store < length (arrays example_store) \<and>
   this_todos example_store_b < length (arrays example_store_b) \<and>
   arrays example_store_b ! this_todos example_store_b =
     arrays example_store ! this_todos example_store \<and>
   this_currentFilter example_store_b = this_currentFilter example_store \<and>
   this_searchQuery example_store_b = this_searchQuery example_store \<and>
   arrays (snd (getFilteredTodos_store example_Date example_store_b)) !
       fst (getFilteredTodos_store example_Date example_store_b) =
     arrays (snd (getFilteredTodos_store example_Date example_store)) !
       fst (getFilteredTodos_store example_Date example_store) \<and>
   arrays (snd (getFilteredTodos_store example_Date example_store)) ! this_todos example_store =
     arrays example_store ! this_todos example_store"
proof -
  have h1: "this_todos example_store < length (arrays example_store)" by (simp add: eval_defs)
  have h2: "this_todos example_store_b < length (arrays example_store_b)" by (simp add: eval_defs)
  have h3: "arrays example_store_b ! this_todos example_store_b =
              arrays example_store ! this_todos example_store" by (simp add: eval_defs)
  have h4: "this_currentFilter example_store_b = this_currentFilter example_store" by (simp add: eval_defs)
  have h5: "this_searchQuery example_store_b = this_searchQuery example_store" by (simp add: eval_defs)
  from getFilteredTodos_pure [OF h1 h2 h3 h4 h5, of example_Date] h1 h2 h3 h4 h5
  show ?thesis by blast
qed

section \<open>The edge server's answers\<close>

text \<open>
  What the server does with a request that \<^verbatim>\<open>express.static\<close> has passed on and
  that is not under the API prefix.
\<close>

lemma server_unmatched:
  assumes "express_static public req = None" and "\<not> under_api (req_path req)"
  shows "server public index_html decodeURIComponent backend req =
           (case decodeURIComponent (req_path req) of
              None \<Rightarrow> error_handler
            | Some p \<Rightarrow>
                if req_method req = GET \<or> req_method req = HEAD then sendFile index_html
                else if req_method req = OPTIONS then Allow [GET, HEAD]
                else NotFound)"
  using assms by (simp add: server_def)

text \<open>\<^verbatim>\<open>express.static\<close> never answers a request that is neither GET nor HEAD.\<close>

lemma express_static_other_method:
  "req_method req \<noteq> GET \<Longrightarrow> req_method req \<noteq> HEAD \<Longrightarrow> express_static public req = None"
  by (simp add: express_static_def)

text \<open>
  C6 (as amended). Take a request that matches no static file of the public
  directory and is not under the API prefix. If its method is GET or HEAD and its
  path decodes, the server answers with the entry document \<^verbatim>\<open>index.html\<close> (with
  the error handler's answer when the file cannot be read). If its method is any
  other, the server never answers with the entry document, nor with any file: it
  answers OPTIONS with the allowed methods and the rest with 404. A path that does
  not decode gets the error handler's answer, whatever the method.
\<close>

theorem server_fallback_index:
  assumes "public (req_path req) = None" and "\<not> under_api (req_path req)"
  shows "((req_method req = GET \<or> req_method req = HEAD) \<and>
            decodeURIComponent (req_path req) \<noteq> None \<longrightarrow>
            server public (Some doc) decodeURIComponent backend req = SendFile doc \<and>
            server public index_html decodeURIComponent backend req = sendFile index_html) \<and>
         (req_method req \<noteq> GET \<and> req_method req \<noteq> HEAD \<longrightarrow>
            server public index_html decodeURIComponent backend req \<noteq> SendFile f \<and>
            (decodeURIComponent (req_path req) \<noteq> None \<longrightarrow>
               server public index_html decodeURIComponent backend req =
                 (if req_method req = OPTIONS then Allow [GET, HEAD] else NotFound))) \<and>
         (decodeURIComponent (req_path req) = None \<longrightarrow>
            server public index_html decodeURIComponent backend req = error_handler)"
proof -
  have e: "express_static public req = None"
    using assms(1) by (simp add: express_static_def)
  show ?thesis
    unfolding server_unmatched [OF e assms(2)]
    by (auto simp: sendFile_def error_handler_def split: option.splits)
qed

text \<open>
  The theorem at a GET and at a DELETE request for a client-side route, and at a
  GET request whose path is a lone percent sign.
\<close>

theorem server_fallback_index_witness:
  "empty_dir (req_path \<lparr>req_method = GET, req_path = ''/settings/profile''\<rparr>) = None \<and>
   \<not> under_api (req_path \<lparr>req_method = GET, req_path = ''/settings/profile''\<rparr>) \<and>
   decode_plain (req_path \<lparr>req_method = GET, req_path = ''/settings/profile''\<rparr>) \<noteq> None \<and>
   server empty_dir (Some ''<!DOCTYPE html>'') decode_plain backend_down
     \<lparr>req_method = GET, req_path = ''/settings/profile''\<rparr> = SendFile ''<!DOCTYPE html>'' \<and>
   server empty_dir (Some ''<!DOCTYPE html>'') decode_plain backend_down
     \<lparr>req_method = DELETE, req_path = ''/settings/profile''\<rparr> = NotFound \<and>
   decode_plain (req_path \<lparr>req_method = GET, req_path = ''/%''\<rparr>) = None \<and>
   server empty_dir (Some ''<!DOCTYPE html>'') decode_plain backend_down
     \<lparr>req_method = GET, req_path = ''/%''\<rparr> = Json 500 [(''error'', ''Something went wrong!'')]"
proof -
  let ?get = "\<lparr>req_method = GET, req_path = ''/settings/profile''\<rparr>"
  let ?del = "\<lparr>req_method = DELETE, req_path = ''/settings/profile''\<rparr>"
  let ?bad = "\<lparr>req_method = GET, req_path = ''/%''\<rparr>"
  let ?doc = "''<!DOCTYPE html>''"
  have g1: "empty_dir (req_path ?get) = None" by (simp add: empty_dir_def)
  have g2: "\<not> under_api (req_path ?get)" by (simp add: eval_defs)
  have g3: "decode_plain (req_path ?get) \<noteq> None" by (simp add: eval_defs)
  have d1: "empty_dir (req_path ?del) = None" by (simp add: empty_dir_def)
  have d2: "\<not> under_api (req_path ?del)" by (simp add: eval_defs)
  have d3: "decode_plain (req_path ?del) \<noteq> None" by (simp add: eval_defs)
  have b1: "empty_dir (req_path ?bad) = None" by (simp add: empty_dir_def)
  have b2: "\<not> under_api (req_path ?bad)" by (simp add: eval_defs)
  have b3: "decode_plain (req_path ?bad) = None" by (simp add: eval_defs)
  have "server empty_dir (Some ?doc) decode_plain backend_down ?get = SendFile ?doc"
    using server_fallback_index [where public = empty_dir and req = ?get and doc = ?doc
        and decodeURIComponent = decode_plain and backend = backend_down, OF g1 g2] g3
    by (simp add: sendFile_def)
  moreover have "server empty_dir (Some ?doc) decode_plain backend_down ?del = NotFound"
    using server_fallback_index [where public = empty_dir and req = ?del
        and index_html = "Some ?doc" and decodeURIComponent = decode_plain
        and backend = backend_down, OF d1 d2] d3
    by simp
  moreover have "server empty_dir (Some ?doc) decode_plain backend_down ?bad =
                   Json 500 [(''error'', ''Something went wrong!'')]"
    using server_fallback_index [where public = empty_dir and req = ?bad
        and index_html = "Some ?doc" and decodeURIComponent = decode_plain
        and backend = backend_down, OF b1 b2] b3
    by (simp add: error_handler_def)
  ultimately show ?thesis
    using g1 g2 g3 b3 by blast
qed

text \<open>
  C6 as stated holds for no method but GET and HEAD: the catch-all route is
  registered with \<^verbatim>\<open>app.get\<close>. A POST to the same path, with no static file and not
  under the API prefix, is answered with 404 and not with the entry document.
\<close>

theorem server_fallback_not_for_post:
  "empty_dir (req_path \<lparr>req_method = POST, req_path = ''/settings/profile''\<rparr>) = None \<and>
   \<not> under_api (req_path \<lparr>req_method = POST, req_path = ''/settings/profile''\<rparr>) \<and>
   server empty_dir (Some ''<!DOCTYPE html>'') decode_plain backend_down
     \<lparr>req_method = POST, req_path = ''/settings/profile''\<rparr> = NotFound \<and>
   server empty_dir (Some ''<!DOCTYPE html>'') decode_plain backend_down
     \<lparr>req_method = POST, req_path = ''/settings/profile''\<rparr> \<noteq> SendFile ''<!DOCTYPE html>''"
  by (simp add: eval_defs server_def express_static_def)

text \<open>
  C7. For every request under the API prefix that reaches the proxy
  (\<^verbatim>\<open>express.static\<close> has passed it on) and for which the backend cannot be
  reached, the server answers with status 500 and one fixed JSON payload, the same
  for every request and every error.
\<close>

theorem server_backend_unreachable:
  assumes "under_api (req_path req)" and "express_static public req = None"
    and "backend req = Unreachable err"
  shows "server public index_html decodeURIComponent backend req =
           Json 500 [(''error'', ''Backend server unavailable''),
                     (''message'', ''Please make sure the Flask backend is running on port 5000'')]"
  using assms by (simp add: server_def proxy_def)

text \<open>The theorem at a POST to \<^verbatim>\<open>/api/todos\<close> while the backend is down.\<close>

theorem server_backend_unreachable_witness:
  "under_api (req_path \<lparr>req_method = POST, req_path = ''/api/todos''\<rparr>) \<and>
   express_static empty_dir \<lparr>req_method = POST, req_path = ''/api/todos''\<rparr> = None \<and>
   backend_down \<lparr>req_method = POST, req_path = ''/api/todos''\<rparr> =
     Unreachable ''connect ECONNREFUSED 127.0.0.1:5000'' \<and>
   server empty_dir (Some ''<!DOCTYPE html>'') decode_plain backend_down
     \<lparr>req_method = POST, req_path = ''/api/todos''\<rparr> =
     Json 500 [(''error'', ''Backend server unavailable''),
               (''message'', ''Please make sure the Flask backend is running on port 5000'')]"
proof -
  have h1: "under_api (req_path \<lparr>req_method = POST, req_path = ''/api/todos''\<rparr>)" by (simp add: eval_defs)
  have h2: "express_static empty_dir \<lparr>req_method = POST, req_path = ''/api/todos''\<rparr> = None"
    by (simp add: express_static_def)
  have h3: "backend_down \<lparr>req_method = POST, req_path = ''/api/todos''\<rparr> =
              Unreachable ''connect ECONNREFUSED 127.0.0.1:5000''"
    by (simp add: backend_down_def)
  from server_backend_unreachable [where public = empty_dir and backend = backend_down
      and index_html = "Some ''<!DOCTYPE html>''" and decodeURIComponent = decode_plain
      and req = "\<lparr>req_method = POST, req_path = ''/api/todos''\<rparr>", OF h1 h2 h3] h1 h2 h3
  show ?thesis by blast
qed

end
